theory Spec2Isabelle
  imports Complex_Main
begin

section \<open>Atmospheric correction coefficients for a time series of scenes\<close>

text \<open>
  A shallow embedding of \<^verbatim>\<open>ee-atmcorr-coefficients-timeseries.py\<close>.
  Python floats are read as real numbers: \<open>*\<close>, \<open>/\<close>, \<open>-\<close>, \<open>math.cos\<close> and
  \<open>math.pi\<close> are the exact operations, so rounding is not part of the model.
  Python exceptions are values of the type \<open>error\<close>, and a function that may raise
  returns \<open>error + 'a\<close> with \<open>Inl\<close> for the exception.
\<close>

subsection \<open>Exceptions\<close>

datatype error =
    KeyError string
  | TypeError
  | AttributeError string
  | FileNotFoundError string
  | IndexError
  | NameError string
  | ZeroDivisionError
  | Raised string

text \<open>
  \<open>Raised name\<close> is an exception that comes out of an external callable (an unpickled
  lookup table, the atmospheric-parameter service); the script defines no exception class
  of its own and contains no \<^verbatim>\<open>try\<close>.
\<close>

subsection \<open>Atmospheric parameters\<close>

text \<open>
  \<^verbatim>\<open>AtmParams = collections.namedtuple("AtmParams", ("doy", "solar_z", "h2o", "o3", "aot"))\<close>
\<close>

record AtmParams =
  doy :: int
  solar_z :: real
  h2o :: real
  o3 :: real
  aot :: real

text \<open>
  The functions of the script take \<^verbatim>\<open>atmParams\<close> untyped. Two kinds of Python
  object matter: the named tuple above, whose fields are read as attributes
  (\<^verbatim>\<open>atmParams.doy\<close>) and whose subscript by a string raises \<^verbatim>\<open>TypeError\<close>, and a
  dictionary, whose entries are read by subscript (\<^verbatim>\<open>atmParams["doy"]\<close>) and which has
  no such attributes.
\<close>

datatype atm_obj = NamedTuple AtmParams | Dict "string \<rightharpoonup> real"

fun getattr :: "atm_obj \<Rightarrow> (AtmParams \<Rightarrow> 'a) \<Rightarrow> string \<Rightarrow> error + 'a" where
  "getattr (NamedTuple p) field name = Inr (field p)"
| "getattr (Dict d) field name = Inl (AttributeError name)"

fun getitem :: "atm_obj \<Rightarrow> string \<Rightarrow> error + real" where
  "getitem (NamedTuple p) key = Inl TypeError"
| "getitem (Dict d) key = (case d key of None \<Rightarrow> Inl (KeyError key) | Some v \<Rightarrow> Inr v)"

subsection \<open>Lookup tables and globals\<close>

text \<open>
  An interpolated lookup table is an unpickled callable of five arguments that returns a
  pair, or raises; a result that does not unpack into two values counts as raising. The
  file system is a map from a path to the table pickled there.
\<close>

type_synonym ilut = "real \<Rightarrow> real \<Rightarrow> real \<Rightarrow> real \<Rightarrow> real \<Rightarrow> error + (real \<times> real)"

record globals =
  DIRPATH :: string
  NO_OF_BANDS :: nat
  KM :: real
  files :: "string \<rightharpoonup> ilut"

definition script_DIRPATH :: string where
  "script_DIRPATH = ''./files/iLUTs/S2A_MSI/Continental/view_zenith_0/''"

definition script_NO_OF_BANDS :: nat where
  "script_NO_OF_BANDS = 13"

subsection \<open>Band numbers: \<^verbatim>\<open>str(img_idx).zfill(2)\<close>\<close>

definition digit_char :: "nat \<Rightarrow> char" where
  "digit_char d = ''0123456789'' ! d"

fun str_nat :: "nat \<Rightarrow> string" where
  "str_nat n = (if n < 10 then [digit_char n] else str_nat (n div 10) @ [digit_char (n mod 10)])"

declare str_nat.simps [simp del]

definition zfill :: "nat \<Rightarrow> string \<Rightarrow> string" where
  "zfill width s = replicate (width - length s) (CHR ''0'') @ s"

definition band_nums :: "globals \<Rightarrow> string list" where
  "band_nums g = map (\<lambda>img_idx. zfill 2 (str_nat img_idx)) [1 ..< NO_OF_BANDS g + 1]"

definition ilut_path :: "globals \<Rightarrow> string \<Rightarrow> string" where
  "ilut_path g band = DIRPATH g @ ''S2A_MSI_'' @ band @ ''.ilut''"

subsection \<open>\<^verbatim>\<open>get_corr_coef\<close>\<close>

text \<open>Lines 100 to 102: the factor, a function of the day of year alone.\<close>

definition elliptical_orbit_correction :: "int \<Rightarrow> real" where
  "elliptical_orbit_correction d = 0.03275104 * cos (real_of_int d / 59.66638337) + 0.96804905"

text \<open>
  The call \<^verbatim>\<open>iluTable(atmParams.solar_z, atmParams.h2o, atmParams.o3, atmParams.aot, KM)\<close>:
  the arguments are evaluated left to right, then the table is called.
\<close>

definition call_table :: "ilut \<Rightarrow> atm_obj \<Rightarrow> real \<Rightarrow> error + (real \<times> real)" where
  "call_table iluTable atmParams km =
     (case getattr atmParams solar_z ''solar_z'' of Inl e \<Rightarrow> Inl e | Inr sz \<Rightarrow>
       (case getattr atmParams h2o ''h2o'' of Inl e \<Rightarrow> Inl e | Inr w \<Rightarrow>
         (case getattr atmParams o3 ''o3'' of Inl e \<Rightarrow> Inl e | Inr oz \<Rightarrow>
           (case getattr atmParams aot ''aot'' of Inl e \<Rightarrow> Inl e | Inr ae \<Rightarrow>
              iluTable sz w oz ae km))))"

text \<open>The loop over \<^verbatim>\<open>band_nums\<close>; \<open>corr_coefs\<close> is the list built so far.\<close>

fun corr_loop :: "globals \<Rightarrow> atm_obj \<Rightarrow> string list \<Rightarrow> (real \<times> real) list
    \<Rightarrow> error + (real \<times> real) list" where
  "corr_loop g atmParams [] corr_coefs = Inr corr_coefs"
| "corr_loop g atmParams (band # rest) corr_coefs =
     (case files g (ilut_path g band) of
        None \<Rightarrow> Inl (FileNotFoundError (ilut_path g band))
      | Some iluTable \<Rightarrow>
         (case call_table iluTable atmParams (KM g) of
            Inl e \<Rightarrow> Inl e
          | Inr (a, b) \<Rightarrow>
             (case getattr atmParams doy ''doy'' of
                Inl e \<Rightarrow> Inl e
              | Inr d \<Rightarrow>
                 (let k = elliptical_orbit_correction d
                  in corr_loop g atmParams rest (corr_coefs @ [(a * k, b * k)])))))"

definition get_corr_coef :: "globals \<Rightarrow> atm_obj \<Rightarrow> error + (real \<times> real) list" where
  "get_corr_coef g atmParams = corr_loop g atmParams (band_nums g) []"

text \<open>
  The variant the refinement claim compares with: the factor is computed once, before
  the loop, and the loop only multiplies.
\<close>

fun corr_loop_hoisted :: "globals \<Rightarrow> atm_obj \<Rightarrow> real \<Rightarrow> string list \<Rightarrow> (real \<times> real) list
    \<Rightarrow> error + (real \<times> real) list" where
  "corr_loop_hoisted g atmParams k [] corr_coefs = Inr corr_coefs"
| "corr_loop_hoisted g atmParams k (band # rest) corr_coefs =
     (case files g (ilut_path g band) of
        None \<Rightarrow> Inl (FileNotFoundError (ilut_path g band))
      | Some iluTable \<Rightarrow>
         (case call_table iluTable atmParams (KM g) of
            Inl e \<Rightarrow> Inl e
          | Inr (a, b) \<Rightarrow> corr_loop_hoisted g atmParams k rest (corr_coefs @ [(a * k, b * k)])))"

definition get_corr_coef_hoisted :: "globals \<Rightarrow> atm_obj \<Rightarrow> error + (real \<times> real) list" where
  "get_corr_coef_hoisted g atmParams =
     (case getattr atmParams doy ''doy'' of
        Inl e \<Rightarrow> Inl e
      | Inr d \<Rightarrow> corr_loop_hoisted g atmParams (elliptical_orbit_correction d) (band_nums g) [])"

subsection \<open>\<^verbatim>\<open>toa_to_rad_multiplier\<close>\<close>

text \<open>\<^verbatim>\<open>imageInfo\<close> is the dictionary of a scene's properties; only numbers are read from it.\<close>

type_synonym image_info = "string \<rightharpoonup> real"

definition lookup :: "image_info \<Rightarrow> string \<Rightarrow> error + real" where
  "lookup d key = (case d key of None \<Rightarrow> Inl (KeyError key) | Some v \<Rightarrow> Inr v)"

definition radians :: "real \<Rightarrow> real" where
  "radians x = x * pi / 180"

definition toa_to_rad_multiplier :: "string \<Rightarrow> image_info \<Rightarrow> atm_obj \<Rightarrow> error + real" where
  "toa_to_rad_multiplier bandname imageInfo atmParams =
     (case lookup imageInfo (''SOLAR_IRRADIANCE_'' @ bandname) of
        Inl e \<Rightarrow> Inl e
      | Inr ESUN \<Rightarrow>
         (case getitem atmParams ''solar_z'' of
            Inl e \<Rightarrow> Inl e
          | Inr sz \<Rightarrow>
             (let solar_angle_correction = cos (radians sz) in
               (case getitem atmParams ''doy'' of
                  Inl e \<Rightarrow> Inl e
                | Inr dy \<Rightarrow>
                   (let d = 1 - 0.01672 * cos (0.9856 * (dy - 4)) in
                     if pi * d ^ 2 = 0 then Inl ZeroDivisionError
                     else Inr (ESUN * solar_angle_correction / (pi * d ^ 2)))))))"

subsection \<open>\<^verbatim>\<open>atm_corr_band\<close>\<close>

text \<open>
  An image is seen at one pixel: the names of its bands, in order, and the value of each
  band there. Earth Engine's \<^verbatim>\<open>divide\<close> returns 0 where the divisor is 0;
  \<^verbatim>\<open>multiply\<close> and \<^verbatim>\<open>subtract\<close> are \<open>*\<close> and \<open>-\<close>.
\<close>

record image =
  bandNames :: "string list"
  pixel :: "string \<Rightarrow> real"

definition ee_divide :: "real \<Rightarrow> real \<Rightarrow> real" where
  "ee_divide x y = (if y = 0 then 0 else x / y)"

text \<open>
  Lines 134 and 142 to 145, for one band at one pixel: \<open>toa\<close> is the value of the band in
  the input image and \<open>coeff\<close> is \<^verbatim>\<open>cor_coeff_list[ii]\<close>.
\<close>

definition surface_refl :: "real \<Rightarrow> real \<Rightarrow> real \<times> real \<Rightarrow> real" where
  "surface_refl toa img_to_rad_multiplier coeff =
     (let old_image = ee_divide toa 10000;
          img_rad = old_image * img_to_rad_multiplier;
          const_img_a = fst coeff;
          const_img_b = snd coeff
      in ee_divide (img_rad - const_img_a) const_img_b)"

definition py_nth :: "'a list \<Rightarrow> nat \<Rightarrow> error + 'a" where
  "py_nth xs i = (if i < length xs then Inr (xs ! i) else Inl IndexError)"

text \<open>
  A computed image is the list of its bands, each as its value at the pixel, \<open>None\<close> where
  the band is masked. \<^verbatim>\<open>ee.Image()\<close> is the image with one band, named
  \<^verbatim>\<open>constant\<close> and masked everywhere; \<^verbatim>\<open>addBands\<close> appends a band, and
  \<^verbatim>\<open>select(0, ..., n - 1)\<close> keeps the first \<open>n\<close> bands.
\<close>

type_synonym computed_image = "real option list"

definition ee_Image :: computed_image where
  "ee_Image = [None]"

definition addBands :: "computed_image \<Rightarrow> real \<Rightarrow> computed_image" where
  "addBands new_image band = new_image @ [Some band]"

definition select_range :: "nat \<Rightarrow> computed_image \<Rightarrow> computed_image" where
  "select_range n new_image = take n new_image"

text \<open>The loop over \<^verbatim>\<open>range(NO_OF_BANDS)\<close>, lines 138 to 146.\<close>

fun band_loop :: "image \<Rightarrow> image_info \<Rightarrow> atm_obj \<Rightarrow> (real \<times> real) list \<Rightarrow> string list
    \<Rightarrow> nat list \<Rightarrow> computed_image \<Rightarrow> error + computed_image" where
  "band_loop img imageInfo atmParams cor_coeff_list bandnames [] new_image = Inr new_image"
| "band_loop img imageInfo atmParams cor_coeff_list bandnames (ii # rest) new_image =
     (case py_nth bandnames ii of
        Inl e \<Rightarrow> Inl e
      | Inr bandname \<Rightarrow>
         (case toa_to_rad_multiplier bandname imageInfo atmParams of
            Inl e \<Rightarrow> Inl e
          | Inr img_to_rad_multiplier \<Rightarrow>
             (case py_nth cor_coeff_list ii of
                Inl e \<Rightarrow> Inl e
              | Inr coeff \<Rightarrow>
                 band_loop img imageInfo atmParams cor_coeff_list bandnames rest
                   (addBands new_image
                      (surface_refl (pixel img bandname) img_to_rad_multiplier coeff)))))"

definition atm_corr_band :: "globals \<Rightarrow> image \<Rightarrow> image_info \<Rightarrow> atm_obj
    \<Rightarrow> error + computed_image" where
  "atm_corr_band g img imageInfo atmParams =
     (case get_corr_coef g atmParams of
        Inl e \<Rightarrow> Inl e
      | Inr cor_coeff_list \<Rightarrow>
         (case band_loop img imageInfo atmParams cor_coeff_list (bandNames img)
                 [0 ..< NO_OF_BANDS g] ee_Image of
            Inl e \<Rightarrow> Inl e
          | Inr new_image \<Rightarrow> Inr (select_range (NO_OF_BANDS g) new_image)))"

subsection \<open>\<^verbatim>\<open>atm_corr_image\<close>\<close>

text \<open>
  What the function asks of the outside: the day of the year of a time stamp in seconds
  (\<^verbatim>\<open>datetime.utcfromtimestamp(t).timetuple().tm_yday\<close>) and the three calls of the
  atmospheric-parameter service for the date of that time stamp. Each of them may raise:
  \<^verbatim>\<open>utcfromtimestamp\<close> does for a time stamp outside the years it knows.
\<close>

record services =
  tm_yday :: "real \<Rightarrow> error + int"
  water :: "real \<Rightarrow> error + real"
  ozone :: "real \<Rightarrow> error + real"
  aerosol :: "real \<Rightarrow> error + real"

definition atm_corr_image :: "services \<Rightarrow> image_info \<Rightarrow> error + atm_obj" where
  "atm_corr_image sv imageInfo =
     (case lookup imageInfo ''system:time_start'' of
        Inl e \<Rightarrow> Inl e
      | Inr ms \<Rightarrow>
         (let scene_date = ms / 1000 in
           (case tm_yday sv scene_date of
              Inl e \<Rightarrow> Inl e
            | Inr yday \<Rightarrow>
               (case lookup imageInfo ''MEAN_SOLAR_ZENITH_ANGLE'' of
                  Inl e \<Rightarrow> Inl e
                | Inr sz \<Rightarrow>
                   (case water sv scene_date of
                      Inl e \<Rightarrow> Inl e
                    | Inr w \<Rightarrow>
                       (case ozone sv scene_date of
                          Inl e \<Rightarrow> Inl e
                        | Inr oz \<Rightarrow>
                           (case aerosol sv scene_date of
                              Inl e \<Rightarrow> Inl e
                            | Inr ae \<Rightarrow>
                               Inr (NamedTuple \<lparr>doy = yday, solar_z = sz,
                                                h2o = w, o3 = oz, aot = ae\<rparr>))))))))"

subsection \<open>The batch loop\<close>

record scene =
  properties :: image_info
  scene_image :: image

datatype ee_elem = Num int | Img computed_image

record export_task =
  task_image :: computed_image
  fileNamePrefix :: string

record state =
  corrected_images :: "ee_elem list"
  export_list :: "export_task list"
  coeff_list :: "(real \<times> real) list list"

text \<open>Lines 153 to 155: \<^verbatim>\<open>ee.List([0])\<close> holds one element that is not an image.\<close>

definition init_state :: state where
  "init_state = \<lparr>corrected_images = [Num 0], export_list = [], coeff_list = []\<rparr>"

definition ee_add :: "ee_elem list \<Rightarrow> ee_elem \<Rightarrow> ee_elem list" where
  "ee_add xs x = xs @ [x]"

definition ee_slice :: "nat \<Rightarrow> ee_elem list \<Rightarrow> ee_elem list" where
  "ee_slice start xs = drop start xs"

text \<open>
  One pass through the body of the loop, lines 157 to 177. The script assigns
  \<^verbatim>\<open>EXPORT = False\<close> at line 163; here the flag is an argument, so that both of its
  values can be run.
\<close>

definition process_scene :: "globals \<Rightarrow> services \<Rightarrow> bool \<Rightarrow> nat \<Rightarrow> scene \<Rightarrow> state \<Rightarrow> error + state" where
  "process_scene g sv EXPORT img_idx s st =
     (case atm_corr_image sv (properties s) of
        Inl e \<Rightarrow> Inl e
      | Inr atm_vars \<Rightarrow>
         (case get_corr_coef g atm_vars of
            Inl e \<Rightarrow> Inl e
          | Inr corr_coeffs \<Rightarrow>
             (let st1 = st\<lparr>coeff_list := coeff_list st @ [corr_coeffs]\<rparr> in
               if EXPORT then
                 (case atm_corr_band g (scene_image s) (properties s) atm_vars of
                    Inl e \<Rightarrow> Inl e
                  | Inr img \<Rightarrow>
                     Inr (st1\<lparr>export_list := export_list st1 @
                                 [\<lparr>task_image = img, fileNamePrefix = ''sen2_'' @ str_nat img_idx\<rparr>],
                              corrected_images := ee_add (corrected_images st1) (Img img)\<rparr>))
               else Inr st1)))"

fun batch_loop :: "globals \<Rightarrow> services \<Rightarrow> bool \<Rightarrow> nat \<Rightarrow> scene list \<Rightarrow> state \<Rightarrow> error + state" where
  "batch_loop g sv EXPORT img_idx [] st = Inr st"
| "batch_loop g sv EXPORT img_idx (s # rest) st =
     (case process_scene g sv EXPORT img_idx s st of
        Inl e \<Rightarrow> Inl e
      | Inr st' \<Rightarrow> batch_loop g sv EXPORT (img_idx + 1) rest st')"

text \<open>
  The whole script from line 152 on. \<^verbatim>\<open>EXPORT\<close> is bound only inside the loop, so with
  no image at all line 182 raises \<^verbatim>\<open>NameError\<close>. The result holds the list left in
  \<^verbatim>\<open>corrected_images\<close> by line 180, the tasks started and what is printed to
  \<^verbatim>\<open>coeff_list.txt\<close>.
\<close>

record script_output =
  final_corrected_images :: "ee_elem list"
  started :: "export_task list"
  report :: "(real \<times> real) list list"

definition script :: "globals \<Rightarrow> services \<Rightarrow> bool \<Rightarrow> scene list \<Rightarrow> error + script_output" where
  "script g sv EXPORT scenes =
     (case batch_loop g sv EXPORT 0 scenes init_state of
        Inl e \<Rightarrow> Inl e
      | Inr st \<Rightarrow>
         (let corrected = ee_slice 1 (corrected_images st) in
           if scenes = [] then Inl (NameError ''EXPORT'')
           else Inr \<lparr>final_corrected_images = corrected,
                     started = (if EXPORT then export_list st else []),
                     report = coeff_list st\<rparr>))"

text \<open>The corrected image of a scene, as line 165 computes it.\<close>

definition corrected_of :: "globals \<Rightarrow> services \<Rightarrow> scene \<Rightarrow> error + computed_image" where
  "corrected_of g sv s =
     (case atm_corr_image sv (properties s) of
        Inl e \<Rightarrow> Inl e
      | Inr atm_vars \<Rightarrow> atm_corr_band g (scene_image s) (properties s) atm_vars)"

subsection \<open>Concrete inputs\<close>

text \<open>
  A lookup table fitted for an aerosol optical thickness between 0 and 1, in two forms:
  \<open>extrap_table\<close> returns the fitted function everywhere, as an interpolator that
  extrapolates does; \<open>bounded_table\<close> raises outside the domain. Then the globals of the
  script with one or the other table behind every path, globals with no band, a service
  whose aerosol value leaves the domain on the second day, and two scenes one day apart.
\<close>

definition table_domain :: "real \<Rightarrow> real \<Rightarrow> real \<Rightarrow> real \<Rightarrow> real \<Rightarrow> bool" where
  "table_domain sz w oz ae km = (0 \<le> ae \<and> ae \<le> 1)"

definition extrap_table :: ilut where
  "extrap_table sz w oz ae km = Inr (sz + km, 2 + ae)"

definition bounded_table :: ilut where
  "bounded_table sz w oz ae km =
     (if table_domain sz w oz ae km then extrap_table sz w oz ae km
      else Inl (Raised ''OutOfDomainError''))"

definition unit_table :: ilut where
  "unit_table sz w oz ae km = Inr (1, 1)"

definition demo_globals :: globals where
  "demo_globals = \<lparr>DIRPATH = script_DIRPATH, NO_OF_BANDS = script_NO_OF_BANDS, KM = 1,
                    files = (\<lambda>path. Some bounded_table)\<rparr>"

definition extrap_globals :: globals where
  "extrap_globals = \<lparr>DIRPATH = script_DIRPATH, NO_OF_BANDS = script_NO_OF_BANDS, KM = 1,
                      files = (\<lambda>path. Some extrap_table)\<rparr>"

definition no_band_globals :: globals where
  "no_band_globals = \<lparr>DIRPATH = script_DIRPATH, NO_OF_BANDS = 0, KM = 1,
                       files = (\<lambda>path. Some bounded_table)\<rparr>"

definition demo_services :: services where
  "demo_services = \<lparr>tm_yday = (\<lambda>t. Inr (if t < 86400 then 1 else 2)),
                     water = (\<lambda>t. Inr 2), ozone = (\<lambda>t. Inr 3),
                     aerosol = (\<lambda>t. Inr (if t < 86400 then 0 else 5))\<rparr>"

definition demo_bands :: "string list" where
  "demo_bands = [''B1'', ''B2'', ''B3'', ''B4'', ''B5'', ''B6'', ''B7'', ''B8'', ''B8A'',
                 ''B9'', ''B10'', ''B11'', ''B12'']"

definition demo_properties :: "real \<Rightarrow> image_info" where
  "demo_properties ms = (\<lambda>key.
     if key = ''system:time_start'' then Some ms
     else if key = ''MEAN_SOLAR_ZENITH_ANGLE'' then Some 30
     else if key \<in> set (map (\<lambda>b. ''SOLAR_IRRADIANCE_'' @ b) demo_bands) then Some 1959
     else None)"

definition demo_scene :: "real \<Rightarrow> scene" where
  "demo_scene ms = \<lparr>properties = demo_properties ms,
                    scene_image = \<lparr>bandNames = demo_bands, pixel = (\<lambda>b. 1500)\<rparr>\<rparr>"

definition day1 :: scene where
  "day1 = demo_scene 0"

definition day2 :: scene where
  "day2 = demo_scene 86400000"

definition day1_params :: AtmParams where
  "day1_params = \<lparr>doy = 1, solar_z = 30, h2o = 2, o3 = 3, aot = 0\<rparr>"

definition day2_params :: AtmParams where
  "day2_params = \<lparr>doy = 2, solar_z = 30, h2o = 2, o3 = 3, aot = 5\<rparr>"

section \<open>Properties\<close>

subsection \<open>Band numbers and the concrete inputs\<close>

lemma band_nums_script:
  "NO_OF_BANDS g = 13 \<Longrightarrow> band_nums g =
     [''01'', ''02'', ''03'', ''04'', ''05'', ''06'', ''07'', ''08'', ''09'', ''10'',
      ''11'', ''12'', ''13'']"
  by (simp add: band_nums_def upt_rec zfill_def str_nat.simps digit_char_def)

lemma length_band_nums: "length (band_nums g) = NO_OF_BANDS g"
  by (simp add: band_nums_def)

lemma band_nums_nonempty: "0 < NO_OF_BANDS g \<Longrightarrow> \<exists>b bs. band_nums g = b # bs"
  using length_band_nums [of g] by (cases "band_nums g") auto

lemma demo_atm_day1:
  "atm_corr_image demo_services (properties day1) = Inr (NamedTuple day1_params)"
  by (simp add: atm_corr_image_def day1_def demo_scene_def demo_properties_def lookup_def
      demo_services_def day1_params_def)

lemma demo_atm_day2:
  "atm_corr_image demo_services (properties day2) = Inr (NamedTuple day2_params)"
  by (simp add: atm_corr_image_def day2_def demo_scene_def demo_properties_def lookup_def
      demo_services_def day2_params_def)

lemma demo_coef_day1:
  "get_corr_coef demo_globals (NamedTuple day1_params) =
     Inr (replicate 13 (31 * elliptical_orbit_correction 1, 2 * elliptical_orbit_correction 1))"
  by (simp add: get_corr_coef_def band_nums_script demo_globals_def script_NO_OF_BANDS_def
      call_table_def bounded_table_def table_domain_def extrap_table_def day1_params_def Let_def numeral_eq_Suc)

lemma demo_coef_day2:
  "get_corr_coef demo_globals (NamedTuple day2_params) = Inl (Raised ''OutOfDomainError'')"
  by (simp add: get_corr_coef_def band_nums_script demo_globals_def script_NO_OF_BANDS_def
      call_table_def bounded_table_def table_domain_def extrap_table_def day2_params_def Let_def)

subsection \<open>The coefficient builder\<close>

lemma corr_loop_ok:
  assumes "map (\<lambda>band. files g (ilut_path g band)) bands = map Some tables"
      and "map (\<lambda>t. t (solar_z p) (h2o p) (o3 p) (aot p) (KM g)) tables = map Inr pairs"
  shows "corr_loop g (NamedTuple p) bands acc =
         Inr (acc @ map (\<lambda>(a, b). (a * elliptical_orbit_correction (doy p),
                                    b * elliptical_orbit_correction (doy p))) pairs)"
  using assms
proof (induction bands arbitrary: tables pairs acc)
  case Nil
  then show ?case by simp
next
  case (Cons band rest)
  then obtain t ts where tables: "tables = t # ts" by (cases tables) auto
  with Cons.prems obtain ab pairs' where pairs: "pairs = ab # pairs'" by (cases pairs) auto
  obtain a b where ab: "ab = (a, b)" by (cases ab)
  from Cons.prems tables pairs ab have
    f: "files g (ilut_path g band) = Some t" and
    c: "t (solar_z p) (h2o p) (o3 p) (aot p) (KM g) = Inr (a, b)" and
    r1: "map (\<lambda>band. files g (ilut_path g band)) rest = map Some ts" and
    r2: "map (\<lambda>t. t (solar_z p) (h2o p) (o3 p) (aot p) (KM g)) ts = map Inr pairs'"
    by simp_all
  show ?case
    using Cons.IH [OF r1 r2] f c by (simp add: call_table_def pairs ab Let_def)
qed

text \<open>
  Claim C1. When the file of every band holds a table and every table returns a pair at
  \<open>(solar_z, h2o, o3, aot, KM)\<close>, \<open>get_corr_coef\<close> returns, in the order of the bands,
  the pair \<open>(a * k, b * k)\<close> for the pair \<open>(a, b)\<close> of each table, with \<open>k\<close> the orbit
  correction of the day of year; there is exactly one pair for each band.
\<close>

theorem get_corr_coef_pairs:
  assumes "map (\<lambda>band. files g (ilut_path g band)) (band_nums g) = map Some tables"
      and "map (\<lambda>t. t (solar_z p) (h2o p) (o3 p) (aot p) (KM g)) tables = map Inr pairs"
  shows "get_corr_coef g (NamedTuple p) =
           Inr (map (\<lambda>(a, b). (a * elliptical_orbit_correction (doy p),
                               b * elliptical_orbit_correction (doy p))) pairs)
         \<and> length pairs = NO_OF_BANDS g \<and> length tables = NO_OF_BANDS g"
proof -
  have "length (map (\<lambda>band. files g (ilut_path g band)) (band_nums g)) = length (map Some tables)"
    using assms(1) by simp
  then have lt: "length tables = NO_OF_BANDS g" by (simp add: length_band_nums)
  have "length (map (\<lambda>t. t (solar_z p) (h2o p) (o3 p) (aot p) (KM g)) tables)
        = length (map Inr pairs :: (error + real \<times> real) list)"
    using assms(2) by simp
  then have lp: "length pairs = NO_OF_BANDS g" using lt by simp
  show ?thesis
    using corr_loop_ok [OF assms, of "[]"] lt lp by (simp add: get_corr_coef_def)
qed

theorem get_corr_coef_pairs_witness:
  "map (\<lambda>band. files demo_globals (ilut_path demo_globals band)) (band_nums demo_globals)
     = map Some (replicate 13 bounded_table)
   \<and> map (\<lambda>t. t (solar_z day1_params) (h2o day1_params) (o3 day1_params) (aot day1_params)
                (KM demo_globals)) (replicate 13 bounded_table)
     = map Inr (replicate 13 (31, 2))
   \<and> get_corr_coef demo_globals (NamedTuple day1_params) =
       Inr (replicate 13 (31 * elliptical_orbit_correction 1, 2 * elliptical_orbit_correction 1))"
proof -
  have n: "NO_OF_BANDS demo_globals = 13"
    by (simp add: demo_globals_def script_NO_OF_BANDS_def)
  have h1: "map (\<lambda>band. files demo_globals (ilut_path demo_globals band)) (band_nums demo_globals)
     = map Some (replicate 13 bounded_table)"
    by (simp add: band_nums_script [OF n]) (simp add: demo_globals_def numeral_eq_Suc)
  have h2: "map (\<lambda>t. t (solar_z day1_params) (h2o day1_params) (o3 day1_params)
                (aot day1_params) (KM demo_globals)) (replicate 13 bounded_table)
     = map Inr (replicate 13 (31, 2))"
    by (simp add: bounded_table_def table_domain_def extrap_table_def day1_params_def demo_globals_def)
  show ?thesis
    using get_corr_coef_pairs [OF h1 h2] h1 h2 by (simp add: day1_params_def)
qed

lemma hoisted_loop_eq:
  "corr_loop_hoisted g (NamedTuple p) (elliptical_orbit_correction (doy p)) bands acc
   = corr_loop g (NamedTuple p) bands acc"
  by (induction bands arbitrary: acc)
     (simp_all add: Let_def split: option.splits sum.splits prod.splits)

text \<open>
  Claim C9. The factor is recomputed for every band but depends on the day of year
  alone: for every named tuple of parameters, every number of bands and every set of
  table files, computing it once before the loop gives the same result, the same list
  or the same exception.
\<close>

theorem hoisted_factor_same_coefficients:
  "get_corr_coef_hoisted g (NamedTuple p) = get_corr_coef g (NamedTuple p)"
  by (simp add: get_corr_coef_hoisted_def get_corr_coef_def hoisted_loop_eq)

theorem hoisted_factor_same_coefficients_witness:
  "get_corr_coef_hoisted demo_globals (NamedTuple day1_params) =
     Inr (replicate 13 (31 * elliptical_orbit_correction 1, 2 * elliptical_orbit_correction 1))"
  using hoisted_factor_same_coefficients [of demo_globals day1_params]
  by (simp add: demo_coef_day1)

subsection \<open>The orbit correction\<close>

lemma affine_bounds:
  fixes c :: real
  assumes "- 1 \<le> c" "c \<le> 1"
  shows "0.935 \<le> 0.03275104 * c + 0.96804905 \<and> 0.03275104 * c + 0.96804905 \<le> 1.001"
  using assms by simp

lemma elliptical_orbit_correction_range:
  "0.935 \<le> elliptical_orbit_correction d \<and> elliptical_orbit_correction d \<le> 1.001"
  unfolding elliptical_orbit_correction_def
  by (rule affine_bounds) simp_all

text \<open>
  Claim C6. For every day of year from 1 to 366 the orbit correction lies in the closed
  interval from 0.935 to 1.001.
\<close>

theorem orbit_correction_bounds:
  assumes "1 \<le> d" and "d \<le> 366"
  shows "0.935 \<le> elliptical_orbit_correction d \<and> elliptical_orbit_correction d \<le> 1.001"
  by (rule elliptical_orbit_correction_range)

theorem orbit_correction_bounds_witness:
  "(1::int) \<le> 1 \<and> (1::int) \<le> 366
   \<and> 0.935 \<le> elliptical_orbit_correction 1 \<and> elliptical_orbit_correction 1 \<le> 1.001"
  using orbit_correction_bounds [of 1] by simp

text \<open>
  Claim C3. For every day of year from 1 to 366 the factor that \<open>get_corr_coef\<close> applies
  is \<open>0.03275104 * cos (day / 59.66638337) + 0.96804905\<close>: with a table that returns
  \<open>(1, 1)\<close> behind every band, the result is that value, twice, for every band. The
  factor is the same in every pass of the loop and computing it raises nothing.
\<close>

theorem orbit_correction_formula:
  assumes "1 \<le> doy p" and "doy p \<le> 366"
      and "map (\<lambda>band. files g (ilut_path g band)) (band_nums g)
             = replicate (NO_OF_BANDS g) (Some unit_table)"
  shows "get_corr_coef g (NamedTuple p) =
           Inr (replicate (NO_OF_BANDS g)
                  (0.03275104 * cos (real_of_int (doy p) / 59.66638337) + 0.96804905,
                   0.03275104 * cos (real_of_int (doy p) / 59.66638337) + 0.96804905))"
proof -
  let ?n = "NO_OF_BANDS g"
  have h1: "map (\<lambda>band. files g (ilut_path g band)) (band_nums g)
            = map Some (replicate ?n unit_table)"
    using assms(3) by simp
  have h2: "map (\<lambda>t. t (solar_z p) (h2o p) (o3 p) (aot p) (KM g)) (replicate ?n unit_table)
            = map Inr (replicate ?n (1, 1))"
    by (simp add: unit_table_def)
  show ?thesis
    using corr_loop_ok [OF h1 h2, of "[]"]
    by (simp add: get_corr_coef_def elliptical_orbit_correction_def)
qed

theorem orbit_correction_formula_witness:
  "1 \<le> doy day1_params \<and> doy day1_params \<le> 366
   \<and> map (\<lambda>band. files (demo_globals\<lparr>files := (\<lambda>path. Some unit_table)\<rparr>)
                    (ilut_path (demo_globals\<lparr>files := (\<lambda>path. Some unit_table)\<rparr>) band))
          (band_nums (demo_globals\<lparr>files := (\<lambda>path. Some unit_table)\<rparr>))
       = replicate (NO_OF_BANDS (demo_globals\<lparr>files := (\<lambda>path. Some unit_table)\<rparr>))
           (Some unit_table)
   \<and> get_corr_coef (demo_globals\<lparr>files := (\<lambda>path. Some unit_table)\<rparr>) (NamedTuple day1_params) =
       Inr (replicate 13 (0.03275104 * cos (1 / 59.66638337) + 0.96804905,
                          0.03275104 * cos (1 / 59.66638337) + 0.96804905))"
proof -
  let ?g = "demo_globals\<lparr>files := (\<lambda>path. Some unit_table)\<rparr>"
  have d: "1 \<le> doy day1_params" "doy day1_params \<le> 366"
    by (simp_all add: day1_params_def)
  have n: "NO_OF_BANDS ?g = 13"
    by (simp add: demo_globals_def script_NO_OF_BANDS_def)
  have f: "map (\<lambda>band. files ?g (ilut_path ?g band)) (band_nums ?g)
           = replicate (NO_OF_BANDS ?g) (Some unit_table)"
    by (simp add: band_nums_script [OF n] n numeral_eq_Suc)
  show ?thesis
    using orbit_correction_formula [OF d f] d f n by (simp add: day1_params_def)
qed

subsection \<open>The multiplier\<close>

lemma earth_sun_distance_pos:
  fixes c :: real
  assumes "- 1 \<le> c" "c \<le> 1"
  shows "0 < 1 - 0.01672 * c"
  using assms by simp

text \<open>Read from a dictionary, the multiplier is the formula, and the divisor is never zero.\<close>

lemma toa_to_rad_multiplier_dict:
  assumes "imageInfo (''SOLAR_IRRADIANCE_'' @ bandname) = Some ESUN"
      and "d ''solar_z'' = Some sz" and "d ''doy'' = Some dy"
  shows "toa_to_rad_multiplier bandname imageInfo (Dict d) =
         Inr (ESUN * cos (radians sz) / (pi * (1 - 0.01672 * cos (0.9856 * (dy - 4))) ^ 2))"
proof -
  have "0 < 1 - 0.01672 * cos (0.9856 * (dy - 4))"
    by (rule earth_sun_distance_pos) simp_all
  then have "pi * (1 - 0.01672 * cos (0.9856 * (dy - 4))) ^ 2 \<noteq> 0" by simp
  then show ?thesis using assms
    by (simp add: toa_to_rad_multiplier_def lookup_def Let_def)
qed

text \<open>
  Read from the named tuple that \<open>atm_corr_image\<close> builds, it is never computed: the
  subscript \<^verbatim>\<open>atmParams["solar_z"]\<close> raises.
\<close>

lemma toa_to_rad_multiplier_namedtuple:
  "toa_to_rad_multiplier bandname imageInfo (NamedTuple p) =
     Inl (case imageInfo (''SOLAR_IRRADIANCE_'' @ bandname) of
            None \<Rightarrow> KeyError (''SOLAR_IRRADIANCE_'' @ bandname) | Some v \<Rightarrow> TypeError)"
  by (simp add: toa_to_rad_multiplier_def lookup_def split: option.splits)

text \<open>
  Claim C4. The multiplier is meant to be
  \<open>solar_irradiance * cos (radians solar_zenith) / (pi * d\<^sup>2)\<close>. At the parameters of the
  first demo scene, a named tuple with day of year 1 and zenith 30 and a solar
  irradiance of 1959 for band B1, the function raises \<^verbatim>\<open>TypeError\<close> and returns
  no number.
\<close>

theorem toa_to_rad_multiplier_raises_on_AtmParams:
  "demo_properties 0 ''SOLAR_IRRADIANCE_B1'' = Some 1959
   \<and> toa_to_rad_multiplier ''B1'' (demo_properties 0) (NamedTuple day1_params) = Inl TypeError"
  by (simp add: toa_to_rad_multiplier_def lookup_def demo_properties_def demo_bands_def)

subsection \<open>The surface reflectance transform\<close>

text \<open>The arithmetic of lines 134 and 142 to 145, for a divisor that is not zero.\<close>

lemma surface_refl_formula:
  assumes "b \<noteq> 0"
  shows "surface_refl toa m (a, b) = ((toa / 10000) * m - a) / b"
  using assms by (simp add: surface_refl_def ee_divide_def)

text \<open>
  One pass of the loop of \<open>atm_corr_band\<close>, for parameters held in a dictionary: the band
  it adds is the value of the input band divided by 10000, times the multiplier, minus
  the first coefficient, divided by the second.
\<close>

lemma band_loop_adds_surface_reflectance:
  assumes "py_nth bandnames ii = Inr bandname"
      and "imageInfo (''SOLAR_IRRADIANCE_'' @ bandname) = Some ESUN"
      and "d ''solar_z'' = Some sz" and "d ''doy'' = Some dy"
      and "py_nth cor_coeff_list ii = Inr (a, b)" and "b \<noteq> 0"
  shows "band_loop img imageInfo (Dict d) cor_coeff_list bandnames [ii] new_image =
         Inr (new_image @
           [Some (((pixel img bandname / 10000)
                    * (ESUN * cos (radians sz) / (pi * (1 - 0.01672 * cos (0.9856 * (dy - 4))) ^ 2))
                    - a) / b)])"
  using assms
  by (simp add: toa_to_rad_multiplier_dict surface_refl_formula addBands_def)

lemma call_table_dict: "call_table t (Dict d) km = Inl (AttributeError ''solar_z'')"
  by (simp add: call_table_def)

lemma get_corr_coef_dict:
  assumes "0 < NO_OF_BANDS g"
  shows "\<exists>e. get_corr_coef g (Dict d) = Inl e"
proof -
  from band_nums_nonempty [OF assms] obtain b bs where "band_nums g = b # bs" by blast
  then show ?thesis
    by (simp add: get_corr_coef_def call_table_dict split: option.splits)
qed

text \<open>
  \<open>get_corr_coef\<close> reads attributes and \<open>toa_to_rad_multiplier\<close> subscripts the same
  object, so with at least one band one of the two raises and \<open>atm_corr_band\<close> returns no
  image.
\<close>

lemma atm_corr_band_never_returns:
  assumes "0 < NO_OF_BANDS g"
  shows "\<exists>e. atm_corr_band g img imageInfo atmParams = Inl e"
proof (cases atmParams)
  case (NamedTuple p)
  from assms have r: "[0 ..< NO_OF_BANDS g] = 0 # [1 ..< NO_OF_BANDS g]"
    by (simp add: upt_conv_Cons)
  show ?thesis
    by (simp add: atm_corr_band_def NamedTuple r toa_to_rad_multiplier_namedtuple
        split: sum.splits)
next
  case (Dict d)
  from get_corr_coef_dict [OF assms] obtain e where "get_corr_coef g (Dict d) = Inl e" by blast
  then show ?thesis by (simp add: atm_corr_band_def Dict)
qed

text \<open>With no band it returns the image without bands.\<close>

lemma atm_corr_band_no_band:
  assumes "NO_OF_BANDS g = 0"
  shows "atm_corr_band g img imageInfo atmParams = Inr []"
  using assms by (simp add: atm_corr_band_def get_corr_coef_def band_nums_def select_range_def)

lemma atm_corr_band_demo:
  "atm_corr_band demo_globals (scene_image day1) (properties day1) (NamedTuple day1_params)
     = Inl TypeError"
proof -
  have n: "[0 ..< NO_OF_BANDS demo_globals] = 0 # [1 ..< NO_OF_BANDS demo_globals]"
    by (simp add: demo_globals_def script_NO_OF_BANDS_def upt_conv_Cons)
  show ?thesis
    by (simp add: atm_corr_band_def demo_coef_day1 n toa_to_rad_multiplier_namedtuple py_nth_def
        day1_def demo_scene_def demo_bands_def demo_properties_def)
qed

text \<open>
  Claim C2. The transform is meant to return, for every TOA value, multiplier and
  coefficient pair \<open>(a, b)\<close> with \<open>b\<close> not zero, \<open>((toa / 10000) * multiplier - a) / b\<close>.
  On the first demo scene, whose thirteen bands hold 1500 and whose coefficients
  \<open>get_corr_coef\<close> returns, \<open>atm_corr_band\<close> raises \<^verbatim>\<open>TypeError\<close> while it computes
  the multiplier of the first band, and returns no surface reflectance.
\<close>

theorem atm_corr_band_returns_no_surface_reflectance:
  "get_corr_coef demo_globals (NamedTuple day1_params) =
     Inr (replicate 13 (31 * elliptical_orbit_correction 1, 2 * elliptical_orbit_correction 1))
   \<and> bandNames (scene_image day1) = demo_bands
   \<and> pixel (scene_image day1) ''B1'' = 1500
   \<and> atm_corr_band demo_globals (scene_image day1) (properties day1) (NamedTuple day1_params)
       = Inl TypeError"
  by (simp add: demo_coef_day1 atm_corr_band_demo) (simp add: day1_def demo_scene_def)

subsection \<open>The batch loop\<close>

lemma batch_loop_append:
  "batch_loop g sv EXPORT i (xs @ ys) st =
     (case batch_loop g sv EXPORT i xs st of
        Inl e \<Rightarrow> Inl e
      | Inr st' \<Rightarrow> batch_loop g sv EXPORT (i + length xs) ys st')"
  by (induction xs arbitrary: i st) (simp_all split: sum.splits)



text \<open>Without the export branch the loop only appends coefficients.\<close>

lemma process_scene_coeff:
  assumes "process_scene g sv EXPORT i s st = Inr st'"
  shows "\<exists>atm cs. atm_corr_image sv (properties s) = Inr atm \<and> get_corr_coef g atm = Inr cs \<and>
           coeff_list st' = coeff_list st @ [cs]"
  using assms
  by (auto simp: process_scene_def Let_def split: sum.splits if_splits)

lemma batch_loop_coeff_flag:
  assumes "batch_loop g sv True i scenes st = Inr st1"
      and "batch_loop g sv False j scenes st' = Inr st2"
      and "coeff_list st = coeff_list st'"
  shows "coeff_list st1 = coeff_list st2"
  using assms
proof (induction scenes arbitrary: i j st st')
  case Nil
  then show ?case by simp
next
  case (Cons s rest)
  from Cons.prems(1) obtain a where a: "process_scene g sv True i s st = Inr a"
    "batch_loop g sv True (i + 1) rest a = Inr st1" by (auto split: sum.splits)
  from Cons.prems(2) obtain b where b: "process_scene g sv False j s st' = Inr b"
    "batch_loop g sv False (j + 1) rest b = Inr st2" by (auto split: sum.splits)
  from process_scene_coeff [OF a(1)] process_scene_coeff [OF b(1)] Cons.prems(3)
  have "coeff_list a = coeff_list b" by auto
  from Cons.IH [OF a(2) b(2) this] show ?case .
qed

text \<open>With the flag set and at least one band, the first scene already stops the script.\<close>

lemma script_export_never_completes:
  assumes "0 < NO_OF_BANDS g" and "scenes \<noteq> []"
  shows "\<exists>e. script g sv True scenes = Inl e"
proof -
  from assms(2) obtain s rest where sc: "scenes = s # rest" by (cases scenes) auto
  have "\<exists>e. process_scene g sv True 0 s init_state = Inl e"
  proof (cases "atm_corr_image sv (properties s)")
    case (Inl e)
    then show ?thesis by (simp add: process_scene_def)
  next
    case (Inr atm)
    from atm_corr_band_never_returns [OF assms(1)] obtain e where
      "atm_corr_band g (scene_image s) (properties s) atm = Inl e" by blast
    with Inr show ?thesis by (simp add: process_scene_def Let_def split: sum.splits)
  qed
  then show ?thesis by (auto simp: script_def sc)
qed

lemma demo_script_day1:
  "script demo_globals demo_services False [day1] =
     Inr \<lparr>final_corrected_images = [], started = [],
          report = [replicate 13 (31 * elliptical_orbit_correction 1,
                                  2 * elliptical_orbit_correction 1)]\<rparr>"
  by (simp add: script_def process_scene_def demo_atm_day1 demo_coef_day1 init_state_def
      ee_slice_def)

text \<open>
  Claim C8. Two runs that differ only in the flag are meant to give the same
  coefficients. On the one scene \<open>day1\<close> the run without export writes the thirteen
  pairs of the scene; the run with export raises \<^verbatim>\<open>TypeError\<close> in \<open>atm_corr_band\<close> and
  writes nothing.
\<close>

theorem export_flag_changes_outcome:
  "script demo_globals demo_services False [day1] =
     Inr \<lparr>final_corrected_images = [], started = [],
          report = [replicate 13 (31 * elliptical_orbit_correction 1,
                                  2 * elliptical_orbit_correction 1)]\<rparr>
   \<and> script demo_globals demo_services True [day1] = Inl TypeError"
  by (simp add: demo_script_day1)
     (simp add: script_def process_scene_def demo_atm_day1 demo_coef_day1 init_state_def
       atm_corr_band_demo)

subsection \<open>Scenes outside the domain of the tables\<close>

text \<open>
  The builder asks the tables and nothing else: what it returns for a scene is fixed by
  what the tables return at the parameters of the scene.
\<close>

lemma get_corr_coef_of_pairs:
  assumes "map (\<lambda>band. files g (ilut_path g band)) (band_nums g) = map Some tables"
      and "map (\<lambda>t. t (solar_z p) (h2o p) (o3 p) (aot p) (KM g)) tables = map Inr pairs"
  shows "get_corr_coef g (NamedTuple p) =
           Inr (map (\<lambda>(a, b). (a * elliptical_orbit_correction (doy p),
                               b * elliptical_orbit_correction (doy p))) pairs)"
  using corr_loop_ok [OF assms, of "[]"] by (simp add: get_corr_coef_def)

lemma batch_loop_no_export:
  assumes "map (\<lambda>s. atm_corr_image sv (properties s)) scenes = map (\<lambda>p. Inr (NamedTuple p)) ps"
      and "map (\<lambda>band. files g (ilut_path g band)) (band_nums g) = map Some tables"
      and "map (\<lambda>p. map (\<lambda>t. t (solar_z p) (h2o p) (o3 p) (aot p) (KM g)) tables) ps
             = map (map Inr) pairss"
  shows "batch_loop g sv False i scenes st =
           Inr (st\<lparr>coeff_list := coeff_list st @
                  map2 (\<lambda>p pairs. map (\<lambda>(a, b). (a * elliptical_orbit_correction (doy p),
                                                   b * elliptical_orbit_correction (doy p))) pairs)
                       ps pairss\<rparr>)"
  using assms
proof (induction scenes arbitrary: ps pairss i st)
  case Nil
  then show ?case by simp
next
  case (Cons s rest)
  from Cons.prems(1) obtain p ps' where ps: "ps = p # ps'" by (cases ps) auto
  with Cons.prems(3) obtain pairs prs where prs: "pairss = pairs # prs" by (cases pairss) auto
  from Cons.prems ps prs have
    a: "atm_corr_image sv (properties s) = Inr (NamedTuple p)" and
    t: "map (\<lambda>t. t (solar_z p) (h2o p) (o3 p) (aot p) (KM g)) tables = map Inr pairs" and
    r1: "map (\<lambda>s. atm_corr_image sv (properties s)) rest = map (\<lambda>p. Inr (NamedTuple p)) ps'" and
    r3: "map (\<lambda>p. map (\<lambda>t. t (solar_z p) (h2o p) (o3 p) (aot p) (KM g)) tables) ps'
           = map (map Inr) prs"
    by simp_all
  have c: "get_corr_coef g (NamedTuple p) =
           Inr (map (\<lambda>(a, b). (a * elliptical_orbit_correction (doy p),
                               b * elliptical_orbit_correction (doy p))) pairs)"
    by (rule get_corr_coef_of_pairs [OF Cons.prems(2) t])
  show ?case
    by (simp add: process_scene_def a c Cons.IH [OF r1 Cons.prems(2) r3] ps prs)
qed

lemma demo_coef_extrap_day1:
  "get_corr_coef extrap_globals (NamedTuple day1_params) =
     Inr (replicate 13 (31 * elliptical_orbit_correction 1, 2 * elliptical_orbit_correction 1))"
  by (simp add: get_corr_coef_def band_nums_script extrap_globals_def script_NO_OF_BANDS_def
      call_table_def extrap_table_def day1_params_def Let_def numeral_eq_Suc)

lemma demo_coef_extrap_day2:
  "get_corr_coef extrap_globals (NamedTuple day2_params) =
     Inr (replicate 13 (31 * elliptical_orbit_correction 2, 7 * elliptical_orbit_correction 2))"
  by (simp add: get_corr_coef_def band_nums_script extrap_globals_def script_NO_OF_BANDS_def
      call_table_def extrap_table_def day2_params_def Let_def numeral_eq_Suc)

text \<open>
  Claim C5, as stated, fails. The second demo scene lies outside the domain of the table
  behind every band. With the table that extrapolates, evaluating the scene raises
  nothing, and its thirteen pairs stand in the output of the batch between those of the
  other two scenes.
\<close>

theorem out_of_domain_scene_is_extrapolated:
  "atm_corr_image demo_services (properties day2) = Inr (NamedTuple day2_params)
   \<and> \<not> table_domain (solar_z day2_params) (h2o day2_params) (o3 day2_params)
         (aot day2_params) (KM extrap_globals)
   \<and> get_corr_coef extrap_globals (NamedTuple day2_params) =
       Inr (replicate 13 (31 * elliptical_orbit_correction 2, 7 * elliptical_orbit_correction 2))
   \<and> script extrap_globals demo_services False [day1, day2, day1] =
       Inr \<lparr>final_corrected_images = [], started = [],
            report =
              [replicate 13 (31 * elliptical_orbit_correction 1, 2 * elliptical_orbit_correction 1),
               replicate 13 (31 * elliptical_orbit_correction 2, 7 * elliptical_orbit_correction 2),
               replicate 13 (31 * elliptical_orbit_correction 1, 2 * elliptical_orbit_correction 1)]\<rparr>"
proof -
  have d: "\<not> table_domain (solar_z day2_params) (h2o day2_params) (o3 day2_params)
         (aot day2_params) (KM extrap_globals)"
    by (simp add: table_domain_def day2_params_def)
  have r: "script extrap_globals demo_services False [day1, day2, day1] =
       Inr \<lparr>final_corrected_images = [], started = [],
            report =
              [replicate 13 (31 * elliptical_orbit_correction 1, 2 * elliptical_orbit_correction 1),
               replicate 13 (31 * elliptical_orbit_correction 2, 7 * elliptical_orbit_correction 2),
               replicate 13 (31 * elliptical_orbit_correction 1, 2 * elliptical_orbit_correction 1)]\<rparr>"
    by (simp add: script_def process_scene_def demo_atm_day1 demo_atm_day2
        demo_coef_extrap_day1 demo_coef_extrap_day2 init_state_def ee_slice_def)
  from d r demo_atm_day2 demo_coef_extrap_day2 show ?thesis by blast
qed

text \<open>
  Claim C5, amended. The code makes no domain check. In a batch run without export whose
  tables return a pair at the parameters of every scene, as they do for a scene outside
  their domain when they extrapolate, no scene fails and the output holds the
  coefficients of every scene, that scene included, in the order of the scenes: for each
  scene what the tables return at its parameters, times the orbit correction.
\<close>

theorem batch_has_no_domain_check:
  assumes "scenes \<noteq> []"
      and "map (\<lambda>s. atm_corr_image sv (properties s)) scenes = map (\<lambda>p. Inr (NamedTuple p)) ps"
      and "map (\<lambda>band. files g (ilut_path g band)) (band_nums g) = map Some tables"
      and "map (\<lambda>p. map (\<lambda>t. t (solar_z p) (h2o p) (o3 p) (aot p) (KM g)) tables) ps
             = map (map Inr) pairss"
  shows "script g sv False scenes =
           Inr \<lparr>final_corrected_images = [], started = [],
                report =
                  map2 (\<lambda>p pairs. map (\<lambda>(a, b). (a * elliptical_orbit_correction (doy p),
                                                   b * elliptical_orbit_correction (doy p))) pairs)
                       ps pairss\<rparr>"
  using assms(1)
  by (simp add: script_def batch_loop_no_export [OF assms(2,3,4)] init_state_def ee_slice_def)

theorem batch_has_no_domain_check_witness:
  "[day1, day2, day1] \<noteq> []
   \<and> map (\<lambda>s. atm_corr_image demo_services (properties s)) [day1, day2, day1]
       = map (\<lambda>p. Inr (NamedTuple p)) [day1_params, day2_params, day1_params]
   \<and> map (\<lambda>band. files extrap_globals (ilut_path extrap_globals band)) (band_nums extrap_globals)
       = map Some (replicate 13 extrap_table)
   \<and> map (\<lambda>p. map (\<lambda>t. t (solar_z p) (h2o p) (o3 p) (aot p) (KM extrap_globals))
                   (replicate 13 extrap_table))
          [day1_params, day2_params, day1_params]
       = map (map Inr) [replicate 13 (31, 2), replicate 13 (31, 7), replicate 13 (31, 2)]
   \<and> \<not> table_domain (solar_z day2_params) (h2o day2_params) (o3 day2_params)
         (aot day2_params) (KM extrap_globals)
   \<and> script extrap_globals demo_services False [day1, day2, day1] =
       Inr \<lparr>final_corrected_images = [], started = [],
            report =
              [replicate 13 (31 * elliptical_orbit_correction 1, 2 * elliptical_orbit_correction 1),
               replicate 13 (31 * elliptical_orbit_correction 2, 7 * elliptical_orbit_correction 2),
               replicate 13 (31 * elliptical_orbit_correction 1, 2 * elliptical_orbit_correction 1)]\<rparr>"
proof -
  have n: "NO_OF_BANDS extrap_globals = 13"
    by (simp add: extrap_globals_def script_NO_OF_BANDS_def)
  have h1: "[day1, day2, day1] \<noteq> []" by simp
  have h2: "map (\<lambda>s. atm_corr_image demo_services (properties s)) [day1, day2, day1]
       = map (\<lambda>p. Inr (NamedTuple p)) [day1_params, day2_params, day1_params]"
    by (simp add: demo_atm_day1 demo_atm_day2)
  have h3: "map (\<lambda>band. files extrap_globals (ilut_path extrap_globals band))
              (band_nums extrap_globals) = map Some (replicate 13 extrap_table)"
    by (simp add: band_nums_script [OF n]) (simp add: extrap_globals_def numeral_eq_Suc)
  have h4: "map (\<lambda>p. map (\<lambda>t. t (solar_z p) (h2o p) (o3 p) (aot p) (KM extrap_globals))
                   (replicate 13 extrap_table))
          [day1_params, day2_params, day1_params]
       = map (map Inr) [replicate 13 (31, 2), replicate 13 (31, 7), replicate 13 (31, 2)]"
    by (simp add: extrap_table_def day1_params_def day2_params_def extrap_globals_def)
  have d: "\<not> table_domain (solar_z day2_params) (h2o day2_params) (o3 day2_params)
         (aot day2_params) (KM extrap_globals)"
    by (simp add: table_domain_def day2_params_def)
  show ?thesis
    using batch_has_no_domain_check [OF h1 h2 h3 h4] h1 h2 h3 h4 d
    by (simp add: day1_params_def day2_params_def)
qed

text \<open>
  A table that raises is not caught either: the exception leaves \<open>get_corr_coef\<close> and
  the loop, and the script ends at that scene without output.
\<close>

lemma process_scene_coef_error:
  assumes "atm_corr_image sv (properties s) = Inr atm" and "get_corr_coef g atm = Inl e"
  shows "process_scene g sv EXPORT i s st = Inl e"
  using assms by (simp add: process_scene_def)

lemma get_corr_coef_tables_raise:
  assumes bands: "0 < NO_OF_BANDS g"
      and fs: "map (\<lambda>band. files g (ilut_path g band)) (band_nums g) = map Some tables"
      and tabs: "map (\<lambda>t. t (solar_z p) (h2o p) (o3 p) (aot p) (KM g)) tables
                 = replicate (NO_OF_BANDS g) (Inl e)"
  shows "get_corr_coef g (NamedTuple p) = Inl e"
proof -
  from band_nums_nonempty [OF bands] obtain b bs where bn: "band_nums g = b # bs" by blast
  with fs obtain t ts where ts: "tables = t # ts" by (cases tables) auto
  from bands obtain k where k: "NO_OF_BANDS g = Suc k" by (cases "NO_OF_BANDS g") auto
  from fs bn ts have f: "files g (ilut_path g b) = Some t" by simp
  from tabs ts k have c: "t (solar_z p) (h2o p) (o3 p) (aot p) (KM g) = Inl e" by simp
  show ?thesis using f c by (simp add: get_corr_coef_def bn call_table_def)
qed

lemma raising_table_ends_batch:
  assumes pre: "batch_loop g sv EXPORT 0 pre init_state = Inr st"
      and atm: "atm_corr_image sv (properties bad) = Inr (NamedTuple p)"
      and bands: "0 < NO_OF_BANDS g"
      and fs: "map (\<lambda>band. files g (ilut_path g band)) (band_nums g) = map Some tables"
      and tabs: "map (\<lambda>t. t (solar_z p) (h2o p) (o3 p) (aot p) (KM g)) tables
                 = replicate (NO_OF_BANDS g) (Inl e)"
  shows "get_corr_coef g (NamedTuple p) = Inl e
         \<and> script g sv EXPORT (pre @ bad # post) = Inl e"
proof -
  have c: "get_corr_coef g (NamedTuple p) = Inl e"
    by (rule get_corr_coef_tables_raise [OF bands fs tabs])
  have "batch_loop g sv EXPORT 0 (pre @ bad # post) init_state = Inl e"
    by (simp add: batch_loop_append pre process_scene_coef_error [OF atm c])
  then show ?thesis using c by (simp add: script_def)
qed

lemma raising_table_ends_demo_batch:
  "script demo_globals demo_services False [day2, day1] = Inl (Raised ''OutOfDomainError'')
   \<and> script demo_globals demo_services False [day1, day2] = Inl (Raised ''OutOfDomainError'')"
  by (simp add: script_def process_scene_def demo_atm_day1 demo_atm_day2 demo_coef_day1
       demo_coef_day2 init_state_def)

subsection \<open>The seeded element of \<^verbatim>\<open>corrected_images\<close>\<close>

lemma demo_atm_corr_band_no_band:
  "corrected_of no_band_globals demo_services day1 = Inr []"
  by (simp add: corrected_of_def demo_atm_day1 atm_corr_band_no_band no_band_globals_def)



end
